theory Spec2Isabelle
  imports Complex_Main
begin

section \<open>Data model (db/schema.ts)\<close>

text \<open>
  The two tables of \<^verbatim>\<open>db/schema.ts\<close>. A row of \<^verbatim>\<open>projects\<close> is a \<open>project\<close>, a row of
  \<^verbatim>\<open>project_snapshots\<close> a \<open>projectSnapshot\<close>. The column \<^verbatim>\<open>id\<close> is called \<open>pid\<close> and
  \<open>snapshotId\<close> here (\<open>id\<close> is the identity function of HOL); the snapshot columns carry the
  prefix \<open>snapshot\<close> where they would clash with the project columns. Timestamps are
  milliseconds since the epoch, revisions are integers (the width of the datastore's
  integer column is not modelled). The datastore is the pair of the two tables, each a list
  of rows in insertion order.
\<close>

record project =
  pid :: string
  name :: string
  language :: string
  content :: string
  revision :: int
  createdAt :: int
  updatedAt :: int

record projectSnapshot =
  snapshotId :: string
  projectId :: string
  snapshotRevision :: int
  snapshotContent :: string
  snapshotCreatedAt :: int

record db =
  projects :: "project list"
  projectSnapshots :: "projectSnapshot list"

section \<open>Requests, responses and the environment of a request\<close>

text \<open>
  A parsed JSON value as the handler inspects it: \<^verbatim>\<open>typeof v === "string"\<close> holds of
  \<open>JString\<close> only, \<^verbatim>\<open>typeof v === "number"\<close> of \<open>JNumber\<close> only. \<open>JUndefined\<close> is what
  \<^verbatim>\<open>body?.field\<close> yields for an absent field, for a body that is not an object, and for a body
  that failed to parse (\<^verbatim>\<open>req.json().catch(() => ({}))\<close>).
\<close>

datatype jsval = JUndefined | JNull | JBool bool | JNumber rat | JString string | JCompound

text \<open>
  The parts of a \<^verbatim>\<open>Request\<close> the handler reads: \<^verbatim>\<open>req.method\<close> (here \<open>httpMethod\<close>), the
  path of its URL, and the fields of its JSON body.
\<close>

record request =
  httpMethod :: string
  pathname :: string
  body :: "string \<Rightarrow> jsval"

datatype payload =
    JsonProject project
  | JsonProjects "project list"
  | JsonHealth
  | Text string
  | Other

record response =
  status :: nat
  payload :: payload

text \<open>Every statement the handler sends to the datastore; each is awaited and may reject.\<close>

datatype statement =
    SelectLatestSnapshot
  | InsertSnapshot
  | SelectProjects
  | InsertProject
  | SelectProject
  | UpdateProject
  | SelectCurrent

datatype error =
    DbError statement
  | UniqueViolation
  | ForeignKeyViolation
  | URIError

text \<open>
  What one request reads from outside the datastore: the identifier that
  \<^verbatim>\<open>crypto.randomUUID()\<close> returns, the three clock readings (\<^verbatim>\<open>new Date()\<close> of the PATCH
  branch, \<^verbatim>\<open>Date.now()\<close> of \<^verbatim>\<open>maybeSnapshot\<close>, and the datastore's \<^verbatim>\<open>now()\<close> behind
  \<^verbatim>\<open>defaultNow()\<close>), which statements the datastore rejects, the builtin
  \<^verbatim>\<open>decodeURIComponent\<close> (\<open>None\<close> where it throws), and the responses of the routes that never
  touch the datastore (the AI routes) and of the static file layer.
\<close>

record env =
  randomUUID :: string
  newDate :: int
  dateNow :: int
  dbNow :: int
  rejects :: "statement \<Rightarrow> bool"
  decodeURIComponent :: "string \<Rightarrow> string option"
  aiStatus :: response
  aiCompletions :: response
  staticLayer :: response

section \<open>JavaScript builtins used by the handler\<close>

definition startsWith :: "string \<Rightarrow> string \<Rightarrow> bool" where
  "startsWith s p = (take (length p) s = p)"

text \<open>
  \<^verbatim>\<open>String.prototype.trim\<close> on strings whose characters are code units below 256: tab,
  line feed, vertical tab, form feed, carriage return, space and no-break space are stripped
  from both ends.
\<close>

definition isWhiteSpace :: "char \<Rightarrow> bool" where
  "isWhiteSpace c =
     (c \<in> set [CHR 0x09, CHR 0x0A, CHR 0x0B, CHR 0x0C, CHR 0x0D, CHR 0x20, CHR 0xA0])"

definition trim :: "string \<Rightarrow> string" where
  "trim s = rev (dropWhile isWhiteSpace (rev (dropWhile isWhiteSpace s)))"

text \<open>\<^verbatim>\<open>Number.isInteger\<close> on a JSON number.\<close>

definition isInteger :: "rat \<Rightarrow> bool" where
  "isInteger r = (r = of_int \<lfloor>r\<rfloor>)"

text \<open>The remainder operator \<^verbatim>\<open>%\<close>: the result has the sign of the dividend.\<close>

definition js_rem :: "int \<Rightarrow> int \<Rightarrow> int" where
  "js_rem a b = sgn a * (\<bar>a\<bar> mod \<bar>b\<bar>)"

definition json :: "nat \<Rightarrow> payload \<Rightarrow> response" where
  "json st p = \<lparr>status = st, payload = p\<rparr>"

definition text_response :: "nat \<Rightarrow> string \<Rightarrow> response" where
  "text_response st s = \<lparr>status = st, payload = Text s\<rparr>"

section \<open>Constants and snapshot policy (server/api.ts, maybeSnapshot)\<close>

definition DEFAULT_LANGUAGE :: string where
  "DEFAULT_LANGUAGE = ''typescript''"

definition DEFAULT_CONTENT :: string where
  "DEFAULT_CONTENT = ''// Start typing in Codenote'' @ [CHR 0x0A]"

definition SNAPSHOT_INTERVAL_MS :: int where
  "SNAPSHOT_INTERVAL_MS = 30000"

definition SNAPSHOT_EVERY_N_REVISIONS :: int where
  "SNAPSHOT_EVERY_N_REVISIONS = 10"

text \<open>
  \<^verbatim>\<open>select createdAt ... where projectId = id order by createdAt desc limit 1\<close>: the greatest
  creation time among the snapshots of the project, if there is one.
\<close>

fun newest :: "int list \<Rightarrow> int option" where
  "newest [] = None"
| "newest (t # ts) = Some (fold max ts t)"

definition selectLatestSnapshot :: "env \<Rightarrow> string \<Rightarrow> db \<Rightarrow> error + int option" where
  "selectLatestSnapshot e i d =
     (if rejects e SelectLatestSnapshot then Inl (DbError SelectLatestSnapshot)
      else Inr (newest (map snapshotCreatedAt
                  (filter (\<lambda>s. projectId s = i) (projectSnapshots d)))))"

text \<open>
  \<^verbatim>\<open>insert into project_snapshots\<close>: the primary key must be new and the project must exist
  (\<^verbatim>\<open>references(() => projects.id)\<close>); \<^verbatim>\<open>createdAt\<close> takes the datastore's clock.
\<close>

definition insertSnapshot :: "env \<Rightarrow> string \<Rightarrow> string \<Rightarrow> int \<Rightarrow> string \<Rightarrow> db \<Rightarrow> (error + unit) \<times> db" where
  "insertSnapshot e sid i r c d =
     (if rejects e InsertSnapshot then (Inl (DbError InsertSnapshot), d)
      else if sid \<in> set (map snapshotId (projectSnapshots d)) then (Inl UniqueViolation, d)
      else if i \<notin> set (map pid (projects d)) then (Inl ForeignKeyViolation, d)
      else (Inr (),
            d\<lparr>projectSnapshots := projectSnapshots d @
                [\<lparr>snapshotId = sid, projectId = i, snapshotRevision = r,
                  snapshotContent = c, snapshotCreatedAt = dbNow e\<rparr>]\<rparr>))"

definition maybeSnapshot :: "env \<Rightarrow> string \<Rightarrow> int \<Rightarrow> string \<Rightarrow> db \<Rightarrow> (error + unit) \<times> db" where
  "maybeSnapshot e i r c d =
     (case selectLatestSnapshot e i d of
        Inl err \<Rightarrow> (Inl err, d)
      | Inr latest \<Rightarrow>
          (let now = dateNow e;
               lastSnapshotAt = (case latest of Some t \<Rightarrow> t | None \<Rightarrow> 0);
               shouldSnapshot =
                 (latest = None \<or>
                  now - lastSnapshotAt \<ge> SNAPSHOT_INTERVAL_MS \<or>
                  js_rem r SNAPSHOT_EVERY_N_REVISIONS = 0)
           in if \<not> shouldSnapshot then (Inr (), d)
              else insertSnapshot e (randomUUID e) i r c d))"

section \<open>The API handler (server/api.ts, handleApi)\<close>

text \<open>\<^verbatim>\<open>POST /api/projects\<close>, lines 217 to 235.\<close>

definition createProject :: "env \<Rightarrow> request \<Rightarrow> db \<Rightarrow> (error + response option) \<times> db" where
  "createProject e req d =
     (let nm = (case body req ''name'' of
                  JString s \<Rightarrow> if trim s \<noteq> [] then trim s else ''Untitled Project''
                | _ \<Rightarrow> ''Untitled Project'');
          inserted = \<lparr>pid = randomUUID e, name = nm, language = DEFAULT_LANGUAGE,
                      content = DEFAULT_CONTENT, revision = 0,
                      createdAt = dbNow e, updatedAt = dbNow e\<rparr>
      in if rejects e InsertProject then (Inl (DbError InsertProject), d)
         else if randomUUID e \<in> set (map pid (projects d)) then (Inl UniqueViolation, d)
         else (Inr (Some (json 201 (JsonProject inserted))),
               d\<lparr>projects := projects d @ [inserted]\<rparr>))"

text \<open>\<^verbatim>\<open>GET /api/projects\<close>, lines 208 to 214: all rows, most recently updated first.\<close>

definition listProjects :: "env \<Rightarrow> db \<Rightarrow> (error + response option) \<times> db" where
  "listProjects e d =
     (if rejects e SelectProjects then (Inl (DbError SelectProjects), d)
      else (Inr (Some (json 200 (JsonProjects (rev (sort_key updatedAt (projects d)))))), d))"

text \<open>
  The identifier of the two routes under \<^verbatim>\<open>/api/projects/\<close>: the prefix is the first
  occurrence that \<^verbatim>\<open>replace\<close> removes, the rest is decoded.
\<close>

definition pathId :: "env \<Rightarrow> request \<Rightarrow> string option" where
  "pathId e req = decodeURIComponent e (drop (length ''/api/projects/'') (pathname req))"

text \<open>\<^verbatim>\<open>GET /api/projects/:id\<close>, lines 238 to 246.\<close>

definition getProject :: "env \<Rightarrow> request \<Rightarrow> db \<Rightarrow> (error + response option) \<times> db" where
  "getProject e req d =
     (case pathId e req of
        None \<Rightarrow> (Inl URIError, d)
      | Some i \<Rightarrow>
          if rejects e SelectProject then (Inl (DbError SelectProject), d)
          else (case filter (\<lambda>p. pid p = i) (projects d) of
                  [] \<Rightarrow> (Inr (Some (text_response 404 ''Not Found'')), d)
                | p # _ \<Rightarrow> (Inr (Some (json 200 (JsonProject p))), d)))"

text \<open>
  The \<^verbatim>\<open>updateValues\<close> object of the PATCH branch and the conditional update
  \<^verbatim>\<open>update projects set ... where id = i and revision = baseRevision returning *\<close>.
\<close>

record updateValues =
  uContent :: string
  uRevision :: int
  uUpdatedAt :: int
  uName :: "string option"

definition setValues :: "updateValues \<Rightarrow> project \<Rightarrow> project" where
  "setValues u p =
     (let q = p\<lparr>content := uContent u, revision := uRevision u, updatedAt := uUpdatedAt u\<rparr>
      in case uName u of None \<Rightarrow> q | Some n \<Rightarrow> q\<lparr>name := n\<rparr>)"

definition updateWhere :: "string \<Rightarrow> int \<Rightarrow> updateValues \<Rightarrow> db \<Rightarrow> project list \<times> db" where
  "updateWhere i b u d =
     (map (setValues u) (filter (\<lambda>p. pid p = i \<and> revision p = b) (projects d)),
      d\<lparr>projects := map (\<lambda>p. if pid p = i \<and> revision p = b then setValues u p else p)
                       (projects d)\<rparr>)"

text \<open>\<^verbatim>\<open>PATCH /api/projects/:id\<close>, lines 249 to 299.\<close>

definition patchProject :: "env \<Rightarrow> request \<Rightarrow> db \<Rightarrow> (error + response option) \<times> db" where
  "patchProject e req d =
     (case pathId e req of
        None \<Rightarrow> (Inl URIError, d)
      | Some i \<Rightarrow>
          (let contentOpt = (case body req ''content'' of JString s \<Rightarrow> Some s | _ \<Rightarrow> None);
               nameOpt = (case body req ''name'' of JString s \<Rightarrow> Some (trim s) | _ \<Rightarrow> None);
               baseRevision = (case body req ''baseRevision'' of
                                 JNumber r \<Rightarrow> if isInteger r then Some \<lfloor>r\<rfloor> else None
                               | _ \<Rightarrow> None)
           in case (contentOpt, baseRevision) of
                (Some c, Some b) \<Rightarrow>
                  (let u = \<lparr>uContent = c, uRevision = b + 1, uUpdatedAt = newDate e,
                            uName = nameOpt\<rparr>
                   in if rejects e UpdateProject then (Inl (DbError UpdateProject), d)
                      else (case updateWhere i b u d of
                              ([], d1) \<Rightarrow>
                                if rejects e SelectCurrent then (Inl (DbError SelectCurrent), d1)
                                else (case filter (\<lambda>p. pid p = i) (projects d1) of
                                        [] \<Rightarrow> (Inr (Some (text_response 404 ''Not Found'')), d1)
                                      | cur # _ \<Rightarrow> (Inr (Some (json 409 (JsonProject cur))), d1))
                            | (updated # _, d1) \<Rightarrow>
                                (case maybeSnapshot e i (revision updated) (content updated) d1 of
                                   (Inl err, d2) \<Rightarrow> (Inl err, d2)
                                 | (Inr _, d2) \<Rightarrow>
                                     (Inr (Some (json 200 (JsonProject updated))), d2))))
              | _ \<Rightarrow> (Inr (Some (text_response 400 ''content and baseRevision are required'')), d)))"

definition handleApi :: "env \<Rightarrow> request \<Rightarrow> db \<Rightarrow> (error + response option) \<times> db" where
  "handleApi e req d =
     (if \<not> startsWith (pathname req) ''/api/'' then (Inr None, d)
      else if httpMethod req = ''GET'' \<and> pathname req = ''/api/health''
        then (Inr (Some (json 200 JsonHealth)), d)
      else if httpMethod req = ''GET'' \<and> pathname req = ''/api/ai/status''
        then (Inr (Some (aiStatus e)), d)
      else if httpMethod req = ''POST'' \<and> pathname req = ''/api/ai/completions''
        then (Inr (Some (aiCompletions e)), d)
      else if httpMethod req = ''GET'' \<and> pathname req = ''/api/projects''
        then listProjects e d
      else if httpMethod req = ''POST'' \<and> pathname req = ''/api/projects''
        then createProject e req d
      else if httpMethod req = ''GET'' \<and> startsWith (pathname req) ''/api/projects/''
        then getProject e req d
      else if httpMethod req = ''PATCH'' \<and> startsWith (pathname req) ''/api/projects/''
        then patchProject e req d
      else (Inr (Some (text_response 404 ''Not Found'')), d))"

text \<open>
  The request handler of the server entry point: a response of \<open>handleApi\<close> is returned as it
  is, an exception becomes 500, and \<open>null\<close> falls through to the static file layer.
\<close>

definition serve :: "env \<Rightarrow> request \<Rightarrow> db \<Rightarrow> response \<times> db" where
  "serve e req d =
     (case handleApi e req d of
        (Inl err, d1) \<Rightarrow> (text_response 500 ''Internal Server Error'', d1)
      | (Inr (Some r), d1) \<Rightarrow> (r, d1)
      | (Inr None, d1) \<Rightarrow> (staticLayer e, d1))"

section \<open>The save scheduler of the project view (ProjectView)\<close>

text \<open>
  The component keeps its scheduler state in React state (\<^verbatim>\<open>value\<close>, \<^verbatim>\<open>name\<close>,
  \<^verbatim>\<open>saveState\<close>, \<^verbatim>\<open>restoreDraft\<close>, \<^verbatim>\<open>conflictProject\<close>) and in refs. The record
  \<open>projectView\<close> has one field for each; the two state variables \<^verbatim>\<open>value\<close> and \<^verbatim>\<open>name\<close> are
  \<open>valueState\<close> and \<open>nameState\<close>. A ref that holds a timer identifier is \<open>Null\<close>, or holds the
  identifier of a timer still pending (with what the timer will do), or the identifier of a
  timer that has fired: firing leaves the ref as it is, and the code tests the ref for
  truthiness only.
\<close>

datatype saveState = Idle | Saving | Error | Conflict

record draftRecord =
  draftProjectId :: string
  draftContent :: string
  draftName :: string
  draftUpdatedAt :: int
  draftBaseRevision :: int

datatype 'a timerRef = Null | Pending 'a | Fired

record projectView =
  valueState :: string
  nameState :: string
  saveState :: saveState
  restoreDraft :: "draftRecord option"
  conflictProject :: "project option"
  latestValueRef :: string
  latestNameRef :: string
  baseRevisionRef :: int
  lastSavedRef :: string
  lastSavedNameRef :: string
  projectIdRef :: string
  savingRef :: bool
  pendingSaveRef :: bool
  conflictRef :: "project option"
  debounceRef :: "string timerRef"
  maxFlushRef :: "string timerRef"
  draftTimerRef :: "draftRecord timerRef"

text \<open>
  What the component asks of the outside: the PATCH request of a flush (identifier in the
  URL; content, base revision and name in the body), and the calls to the local draft store.
\<close>

record patchCall =
  callProjectId :: string
  callContent :: string
  callBaseRevision :: int
  callName :: string

datatype effect = Fetch patchCall | ClearDraft string | SetDraft draftRecord

text \<open>
  How the awaited \<^verbatim>\<open>fetch\<close> of a flush ends: status 409 with the server's record, a
  successful status with the updated record, or anything that lands in the \<^verbatim>\<open>catch\<close>
  block (a rejected fetch, another status, a body that is not JSON).
\<close>

datatype fetchOutcome = Got409 project | GotOk project | Failed

definition clearTimers :: "projectView \<Rightarrow> projectView" where
  "clearTimers v = v\<lparr>debounceRef := Null, maxFlushRef := Null\<rparr>"

definition scheduleDraftWrite :: "draftRecord \<Rightarrow> projectView \<Rightarrow> projectView" where
  "scheduleDraftWrite draft v = v\<lparr>draftTimerRef := Pending draft\<rparr>"

definition scheduleServerSave :: "projectView \<Rightarrow> projectView" where
  "scheduleServerSave v =
     (if conflictRef v \<noteq> None then v
      else (let v1 = v\<lparr>debounceRef := Pending ''debounce''\<rparr>
            in if maxFlushRef v1 = Null then v1\<lparr>maxFlushRef := Pending ''max''\<rparr> else v1))"

text \<open>
  \<^verbatim>\<open>flush\<close> is an async function. \<open>flush\<close> is its run up to the awaited \<^verbatim>\<open>fetch\<close>
  (lines 178 to 204), \<open>flush_resume\<close> its run from the end of the fetch to the awaited
  \<^verbatim>\<open>clearDraft\<close> or through the \<^verbatim>\<open>finally\<close> block (lines 206 to 246), and \<open>flush_finally\<close>
  the \<^verbatim>\<open>finally\<close> block. The third component of \<open>flush_resume\<close> tells whether the function
  is suspended at \<^verbatim>\<open>await clearDraft\<close>, with the \<^verbatim>\<open>finally\<close> block still to run.
\<close>

definition flush :: "projectView \<Rightarrow> projectView \<times> effect list" where
  "flush v =
     (if conflictRef v \<noteq> None then (v, [])
      else if savingRef v then (v, [])
      else (let content' = latestValueRef v; currentName = latestNameRef v
            in if content' = lastSavedRef v \<and> currentName = lastSavedNameRef v then (v, [])
               else ((clearTimers (v\<lparr>savingRef := True, pendingSaveRef := False\<rparr>))
                        \<lparr>saveState := Saving\<rparr>,
                     [Fetch \<lparr>callProjectId = projectIdRef v, callContent = content',
                             callBaseRevision = baseRevisionRef v, callName = currentName\<rparr>])))"

definition flush_finally :: "projectView \<Rightarrow> projectView" where
  "flush_finally v =
     (let v1 = v\<lparr>savingRef := False\<rparr>
      in if pendingSaveRef v1 \<and> conflictRef v1 = None then scheduleServerSave v1 else v1)"

definition flush_resume :: "int \<Rightarrow> fetchOutcome \<Rightarrow> projectView \<Rightarrow> projectView \<times> effect list \<times> bool" where
  "flush_resume now res v =
     (case res of
        Got409 latest \<Rightarrow>
          (flush_finally (v\<lparr>conflictRef := Some latest, conflictProject := Some latest,
                            saveState := Conflict\<rparr>), [], False)
      | Failed \<Rightarrow> (flush_finally (v\<lparr>saveState := Error\<rparr>), [], False)
      | GotOk updated \<Rightarrow>
          (let v1 = v\<lparr>baseRevisionRef := revision updated, lastSavedRef := content updated,
                       lastSavedNameRef := name updated, saveState := Idle\<rparr>
           in if latestValueRef v1 = content updated \<and> latestNameRef v1 = name updated
              then (v1, [ClearDraft (projectIdRef v1)], True)
              else (flush_finally
                      (scheduleDraftWrite
                         \<lparr>draftProjectId = projectIdRef v1, draftContent = latestValueRef v1,
                          draftName = latestNameRef v1, draftUpdatedAt = now,
                          draftBaseRevision = baseRevisionRef v1\<rparr> v1),
                    [], False)))"

text \<open>
  The effect on \<^verbatim>\<open>[name, value]\<close> (lines 383 to 408), which React runs after a render in
  which the value or the name changed.
\<close>

definition bufferEffect :: "int \<Rightarrow> projectView \<Rightarrow> projectView" where
  "bufferEffect now v =
     (let v1 = v\<lparr>latestValueRef := valueState v, latestNameRef := nameState v\<rparr>
      in if valueState v = lastSavedRef v1 \<and> nameState v = lastSavedNameRef v1 then v1
         else (let v2 = scheduleDraftWrite
                          \<lparr>draftProjectId = projectIdRef v1, draftContent = valueState v,
                           draftName = nameState v, draftUpdatedAt = now,
                           draftBaseRevision = baseRevisionRef v1\<rparr> v1
               in if conflictRef v2 \<noteq> None then v2
                  else if savingRef v2 then v2\<lparr>pendingSaveRef := True\<rparr>
                  else scheduleServerSave v2))"

definition afterRender :: "int \<Rightarrow> projectView \<Rightarrow> projectView \<Rightarrow> projectView" where
  "afterRender now old new =
     (if valueState new \<noteq> valueState old \<or> nameState new \<noteq> nameState old
      then bufferEffect now new else new)"

text \<open>The four handlers of the two dialogs (lines 435 to 472).\<close>

definition handleRestore :: "projectView \<Rightarrow> projectView" where
  "handleRestore v =
     (case restoreDraft v of
        None \<Rightarrow> v
      | Some d \<Rightarrow> v\<lparr>valueState := draftContent d, latestValueRef := draftContent d,
                     nameState := draftName d, latestNameRef := draftName d,
                     restoreDraft := None\<rparr>)"

definition handleDiscardDraft :: "projectView \<Rightarrow> projectView \<times> effect list" where
  "handleDiscardDraft v =
     (case restoreDraft v of
        None \<Rightarrow> (v, [])
      | Some d \<Rightarrow> (v\<lparr>restoreDraft := None\<rparr>, [ClearDraft (projectIdRef v)]))"

definition handleReloadFromServer :: "projectView \<Rightarrow> projectView \<times> effect list" where
  "handleReloadFromServer v =
     (case conflictProject v of
        None \<Rightarrow> (v, [])
      | Some cp \<Rightarrow>
          (v\<lparr>conflictRef := None, baseRevisionRef := revision cp,
             lastSavedRef := content cp, lastSavedNameRef := name cp,
             latestValueRef := content cp, latestNameRef := name cp,
             valueState := content cp, nameState := name cp,
             conflictProject := None, saveState := Idle\<rparr>,
           [ClearDraft (projectIdRef v)]))"

definition handleOverwriteServer :: "projectView \<Rightarrow> projectView \<times> effect list" where
  "handleOverwriteServer v =
     (case conflictProject v of
        None \<Rightarrow> (v, [])
      | Some cp \<Rightarrow>
          flush (v\<lparr>conflictRef := None, baseRevisionRef := revision cp,
                   conflictProject := None, saveState := Idle\<rparr>))"

text \<open>
  The view of a freshly loaded project: the initial values of the state variables and refs,
  which are also what the effect on the loaded project (lines 273 to 288) resets them to.
\<close>

definition openProject :: "project \<Rightarrow> projectView" where
  "openProject p =
     \<lparr>valueState = content p, nameState = name p, saveState = Idle,
      restoreDraft = None, conflictProject = None,
      latestValueRef = content p, latestNameRef = name p,
      baseRevisionRef = revision p, lastSavedRef = content p, lastSavedNameRef = name p,
      projectIdRef = pid p, savingRef = False, pendingSaveRef = False, conflictRef = None,
      debounceRef = Null, maxFlushRef = Null, draftTimerRef = Null\<rparr>"

text \<open>
  The draft check at the start of a session (lines 290 to 317), on the draft read from the
  local store: a draft that equals the server's record is deleted, a draft that is not newer
  than the server's record is ignored, any other draft is offered. The stored draft's time
  is \<open>None\<close> when \<^verbatim>\<open>Date.parse\<close> yields \<^verbatim>\<open>NaN\<close>, its name \<open>None\<close> when it is not a string.
\<close>

record storedDraft =
  storedProjectId :: string
  storedContent :: string
  storedName :: "string option"
  storedUpdatedAt :: "int option"
  storedBaseRevision :: int

definition offerDraft :: "project \<Rightarrow> storedDraft option \<Rightarrow> projectView \<Rightarrow> projectView \<times> effect list" where
  "offerDraft p stored v =
     (case stored of
        None \<Rightarrow> (v, [])
      | Some draft \<Rightarrow>
          (let normalizedDraft =
                 \<lparr>draftProjectId = storedProjectId draft, draftContent = storedContent draft,
                  draftName = (case storedName draft of Some n \<Rightarrow> n | None \<Rightarrow> name p),
                  draftUpdatedAt = (case storedUpdatedAt draft of Some t \<Rightarrow> t | None \<Rightarrow> 0),
                  draftBaseRevision = storedBaseRevision draft\<rparr>
           in if draftContent normalizedDraft = content p \<and> draftName normalizedDraft = name p
              then (v, [ClearDraft (pid p)])
              else (case storedUpdatedAt draft of
                      None \<Rightarrow> (v, [])
                    | Some draftTime \<Rightarrow>
                        if draftTime \<le> updatedAt p then (v, [])
                        else (v\<lparr>restoreDraft := Some normalizedDraft\<rparr>, []))))"

subsection \<open>One editing session as a machine\<close>








section \<open>Request traces and the vocabulary of the claims\<close>





text \<open>
  The snapshot rule in the words of the specification: the document has no snapshot yet, or
  the newest one is at least 30 seconds old, or the revision written is a multiple of 10.
\<close>

definition snapshotDue :: "env \<Rightarrow> string \<Rightarrow> int \<Rightarrow> db \<Rightarrow> bool" where
  "snapshotDue e i r d =
     (let ts = map snapshotCreatedAt (filter (\<lambda>s. projectId s = i) (projectSnapshots d))
      in ts = [] \<or> dateNow e - Max (set ts) \<ge> 30000 \<or> 10 dvd r)"




section \<open>Sample data\<close>

text \<open>
  One stored document at revision 0, an environment in which every statement goes through,
  the same environment with the snapshot insert rejected, and three requests.
\<close>

definition demo_env :: env where
  "demo_env = \<lparr>randomUUID = ''id-2'', newDate = 5000, dateNow = 5000, dbNow = 5000,
     rejects = (\<lambda>s. False), decodeURIComponent = Some,
     aiStatus = json 200 Other, aiCompletions = json 200 Other, staticLayer = json 200 Other\<rparr>"

definition demo_project :: project where
  "demo_project = \<lparr>pid = ''id-1'', name = ''Notes'', language = ''typescript'',
     content = ''let x = 1'', revision = 0, createdAt = 1000, updatedAt = 1000\<rparr>"

definition demo_db :: db where
  "demo_db = \<lparr>projects = [demo_project], projectSnapshots = []\<rparr>"

definition demo_patch :: "string \<Rightarrow> int \<Rightarrow> request" where
  "demo_patch c b = \<lparr>httpMethod = ''PATCH'', pathname = ''/api/projects/id-1'',
     body = (\<lambda>f. if f = ''content'' then JString c
                else if f = ''baseRevision'' then JNumber (of_int b) else JUndefined)\<rparr>"

definition demo_post :: request where
  "demo_post = \<lparr>httpMethod = ''POST'', pathname = ''/api/projects'', body = (\<lambda>f. JUndefined)\<rparr>"

definition demo_env_snapshots_down :: env where
  "demo_env_snapshots_down = demo_env\<lparr>rejects := (\<lambda>s. s = InsertSnapshot)\<rparr>"

definition demo_rename :: "string \<Rightarrow> request" where
  "demo_rename n = \<lparr>httpMethod = ''PATCH'', pathname = ''/api/projects/id-1'',
     body = (\<lambda>f. if f = ''content'' then JString ''hello''
                else if f = ''baseRevision'' then JNumber 0
                else if f = ''name'' then JString n else JUndefined)\<rparr>"

text \<open>
  Views of the sample document: after a rename that leaves the content alone; at the start of
  a session on revision 4 with a newer local draft based on revision 3, as the draft check
  offers it; and in conflict with a server copy at revision 3 after an edit was flushed.
  The sample trace edits, lets the debounce timer fire, edits again and calls \<^verbatim>\<open>flush\<close>
  while the request is in flight, receives the answer, and lets the follow-up timer fire.
\<close>

definition demo_renamed_view :: projectView where
  "demo_renamed_view = bufferEffect 1200 ((openProject demo_project)\<lparr>nameState := ''Renamed''\<rparr>)"

definition demo_project_r4 :: project where
  "demo_project_r4 = demo_project\<lparr>revision := 4, updatedAt := 1500\<rparr>"

definition demo_stored_draft :: storedDraft where
  "demo_stored_draft = \<lparr>storedProjectId = ''id-1'', storedContent = ''let x = 42'',
     storedName = Some ''Draft notes'', storedUpdatedAt = Some 2000, storedBaseRevision = 3\<rparr>"

definition demo_draft :: draftRecord where
  "demo_draft = \<lparr>draftProjectId = ''id-1'', draftContent = ''let x = 42'',
     draftName = ''Draft notes'', draftUpdatedAt = 2000, draftBaseRevision = 3\<rparr>"

definition demo_offer_view :: projectView where
  "demo_offer_view = fst (offerDraft demo_project_r4 (Some demo_stored_draft) (openProject demo_project_r4))"

definition demo_server_copy :: project where
  "demo_server_copy = demo_project\<lparr>content := ''let y = 2'', revision := 3, updatedAt := 4000\<rparr>"

definition demo_conflict_view :: projectView where
  "demo_conflict_view =
     fst (flush_resume 4100 (Got409 demo_server_copy)
            (fst (flush (bufferEffect 1200 ((openProject demo_project)\<lparr>valueState := ''let x = 5''\<rparr>)))))"


section \<open>Properties of the datastore operations\<close>

lemma newest_Max: "newest ts = (if ts = [] then None else Some (Max (set ts)))"
  by (cases ts) (simp_all add: Max.set_eq_fold[symmetric])

lemma js_rem_zero_iff: "js_rem a 10 = 0 \<longleftrightarrow> a mod 10 = 0"
  unfolding js_rem_def by (auto simp: sgn_if zmod_zminus1_eq_if split: if_splits) 

lemma filter_pid_unique:
  assumes "distinct (map pid ps)" "p \<in> set ps"
  shows "filter (\<lambda>q. pid q = pid p) ps = [p]"
  using assms
proof (induction ps)
  case Nil then show ?case by simp
next
  case (Cons a ps)
  then show ?case by (auto simp: filter_empty_conv  intro: rev_image_eqI)
qed

lemma pid_eq_iff:
  assumes "distinct (map pid ps)" "p \<in> set ps" "q \<in> set ps"
  shows "pid q = pid p \<longleftrightarrow> q = p"
  using assms by (meson distinct_map inj_on_eq_iff)

lemma updateWhere_hit:
  assumes "distinct (map pid (projects d))" "p \<in> set (projects d)" "revision p = b"
  shows "updateWhere (pid p) b u d =
           ([setValues u p],
            d\<lparr>projects := map (\<lambda>q. if pid q = pid p then setValues u p else q) (projects d)\<rparr>)"
proof -
  have "filter (\<lambda>q. pid q = pid p \<and> revision q = b) (projects d) = filter (\<lambda>q. pid q = pid p) (projects d)"
    using assms by (intro filter_cong) (auto simp: pid_eq_iff)
  moreover have "map (\<lambda>q. if pid q = pid p \<and> revision q = b then setValues u q else q) (projects d)
     = map (\<lambda>q. if pid q = pid p then setValues u p else q) (projects d)"
    using assms by (intro map_cong) (auto simp: pid_eq_iff)
  ultimately show ?thesis
    using assms by (simp add: updateWhere_def filter_pid_unique)
qed


lemma startsWith_api:
  assumes "startsWith s ''/api/projects/''"
  shows "startsWith s ''/api/''"
proof -
  have "take (length ''/api/projects/'') s @ drop (length ''/api/projects/'') s = s"
    by (rule append_take_drop_id)
  with assms have "s = ''/api/projects/'' @ drop (length ''/api/projects/'') s"
    unfolding startsWith_def by metis
  then obtain t where "s = ''/api/projects/'' @ t" ..
  then show ?thesis by (simp add: startsWith_def)
qed

lemma handleApi_patch:
  assumes "httpMethod req = ''PATCH''" "startsWith (pathname req) ''/api/projects/''"
  shows "handleApi e req d = patchProject e req d"
  using assms startsWith_api[OF assms(2)] by (simp add: handleApi_def)

lemma isInteger_of_int: "isInteger (of_int b)" "\<lfloor>(of_int b)::rat\<rfloor> = b"
  by (simp_all add: isInteger_def)


















lemma js_rem_10_dvd: "js_rem a 10 = 0 \<longleftrightarrow> 10 dvd a"
  by (simp add: js_rem_zero_iff dvd_eq_mod_eq_0)

lemma maybeSnapshot_eval:
  assumes "i \<in> set (map pid (projects d))"
  shows "maybeSnapshot e i r c d =
    (if rejects e SelectLatestSnapshot then (Inl (DbError SelectLatestSnapshot), d)
     else if \<not> snapshotDue e i r d then (Inr (), d)
     else if rejects e InsertSnapshot then (Inl (DbError InsertSnapshot), d)
     else if randomUUID e \<in> set (map snapshotId (projectSnapshots d)) then (Inl UniqueViolation, d)
     else (Inr (), d\<lparr>projectSnapshots := projectSnapshots d @
             [\<lparr>snapshotId = randomUUID e, projectId = i, snapshotRevision = r,
               snapshotContent = c, snapshotCreatedAt = dbNow e\<rparr>]\<rparr>))"
proof -
  define ts where "ts = map snapshotCreatedAt (filter (\<lambda>s. projectId s = i) (projectSnapshots d))"
  have due: "snapshotDue e i r d \<longleftrightarrow>
      (newest ts = None \<or> dateNow e - (case newest ts of Some t \<Rightarrow> t | None \<Rightarrow> 0) \<ge> SNAPSHOT_INTERVAL_MS
        \<or> js_rem r SNAPSHOT_EVERY_N_REVISIONS = 0)"
    by (auto simp: snapshotDue_def ts_def[symmetric] newest_Max SNAPSHOT_INTERVAL_MS_def
        SNAPSHOT_EVERY_N_REVISIONS_def js_rem_10_dvd Let_def)
  show ?thesis
    using assms
    unfolding maybeSnapshot_def selectLatestSnapshot_def ts_def[symmetric] Let_def
    by (simp add: due insertSnapshot_def)
qed

lemma patch_hit:
  assumes route: "httpMethod req = ''PATCH''" "startsWith (pathname req) ''/api/projects/''"
    and ident: "pathId e req = Some (pid p)"
    and shape: "body req ''content'' = JString c" "body req ''baseRevision'' = JNumber (of_int b)"
    and stored: "p \<in> set (projects d)" "distinct (map pid (projects d))"
    and match: "revision p = b"
    and upd: "\<not> rejects e UpdateProject"
    and u: "u = p\<lparr>content := c, revision := b + 1, updatedAt := newDate e,
                    name := (case body req ''name'' of JString s \<Rightarrow> trim s | _ \<Rightarrow> name p)\<rparr>"
    and d1: "d1 = d\<lparr>projects := map (\<lambda>q. if pid q = pid p then u else q) (projects d)\<rparr>"
  shows "handleApi e req d =
     (case maybeSnapshot e (pid p) (b + 1) c d1 of
        (Inl err, d2) \<Rightarrow> (Inl err, d2)
      | (Inr _, d2) \<Rightarrow> (Inr (Some (json 200 (JsonProject u))), d2))"
    and "pid p \<in> set (map pid (projects d1))"
proof -
  define nameOpt where "nameOpt = (case body req ''name'' of JString s \<Rightarrow> Some (trim s) | _ \<Rightarrow> None)"
  define uv where "uv = \<lparr>uContent = c, uRevision = b + 1, uUpdatedAt = newDate e, uName = nameOpt\<rparr>"
  have ueq: "setValues uv p = u"
    unfolding u by (cases "body req ''name''") (simp_all add: uv_def nameOpt_def setValues_def)
  have uw: "updateWhere (pid p) b uv d = ([u], d1)"
    using updateWhere_hit[OF stored(2) stored(1) match] by (simp add: ueq d1)
  have rc: "revision u = b + 1" "content u = c" "pid u = pid p"
    by (simp_all add: u)
  show "handleApi e req d =
     (case maybeSnapshot e (pid p) (b + 1) c d1 of
        (Inl err, d2) \<Rightarrow> (Inl err, d2)
      | (Inr _, d2) \<Rightarrow> (Inr (Some (json 200 (JsonProject u))), d2))"
    using ident shape upd uw rc
    by (simp add: handleApi_patch[OF route] patchProject_def isInteger_of_int Let_def
        nameOpt_def[symmetric] uv_def[symmetric])
  have "map pid (projects d1) = map pid (projects d)"
    using rc(3) by (auto simp: d1)
  then show "pid p \<in> set (map pid (projects d1))"
    using stored(1) by simp
qed


lemma snapshotDue_cong:
  "projectSnapshots d1 = projectSnapshots d \<Longrightarrow> snapshotDue e i r d1 = snapshotDue e i r d"
  by (simp add: snapshotDue_def)


lemmas demo_defs = demo_env_def demo_project_def demo_db_def demo_patch_def demo_post_def
  demo_env_snapshots_down_def demo_rename_def

lemma demo_route:
  "httpMethod (demo_patch c b) = ''PATCH''"
  "startsWith (pathname (demo_patch c b)) ''/api/projects/''"
  "pathId demo_env (demo_patch c b) = Some (pid demo_project)"
  "body (demo_patch c b) ''content'' = JString c"
  "body (demo_patch c b) ''baseRevision'' = JNumber (of_int b)"
  "body (demo_patch c b) ''name'' = JUndefined"
  "demo_project \<in> set (projects demo_db)"
  "distinct (map pid (projects demo_db))"
  by (simp_all add: demo_defs startsWith_def pathId_def)

section \<open>The revision protocol\<close>





section \<open>The snapshot policy\<close>

text \<open>
  Claim C4. After a PATCH that matched the stored revision, with the snapshot statements
  going through, the snapshot table gains exactly one row, holding the content just written
  at the new revision, if the snapshot is due (no snapshot of the document yet, or the newest
  at least 30 seconds old, or the new revision a multiple of 10), and is unchanged otherwise.
  In particular a new revision that is a multiple of 10 always leaves that row behind.
\<close>

theorem snapshot_policy:
  assumes route: "httpMethod req = ''PATCH''" "startsWith (pathname req) ''/api/projects/''"
    and ident: "pathId e req = Some (pid p)"
    and shape: "body req ''content'' = JString c" "body req ''baseRevision'' = JNumber (of_int b)"
    and stored: "p \<in> set (projects d)" "distinct (map pid (projects d))"
    and match: "revision p = b"
    and healthy: "\<not> rejects e UpdateProject" "\<not> rejects e SelectLatestSnapshot"
      "\<not> rejects e InsertSnapshot"
      "randomUUID e \<notin> set (map snapshotId (projectSnapshots d))"
  shows "(let s = \<lparr>snapshotId = randomUUID e, projectId = pid p, snapshotRevision = b + 1,
                   snapshotContent = c, snapshotCreatedAt = dbNow e\<rparr>
          in projectSnapshots (snd (serve e req d)) =
               (if snapshotDue e (pid p) (b + 1) d then projectSnapshots d @ [s]
                else projectSnapshots d) \<and>
             (10 dvd (b + 1) \<longrightarrow> s \<in> set (projectSnapshots (snd (serve e req d)))))"
proof -
  define u where "u = p\<lparr>content := c, revision := b + 1, updatedAt := newDate e,
                    name := (case body req ''name'' of JString s \<Rightarrow> trim s | _ \<Rightarrow> name p)\<rparr>"
  define d1 where "d1 = d\<lparr>projects := map (\<lambda>q. if pid q = pid p then u else q) (projects d)\<rparr>"
  note hit = patch_hit[OF route ident shape stored match healthy(1) u_def d1_def]
  have snaps: "projectSnapshots d1 = projectSnapshots d" by (simp add: d1_def)
  have due: "snapshotDue e (pid p) (b + 1) d1 = snapshotDue e (pid p) (b + 1) d"
    by (rule snapshotDue_cong[OF snaps])
  have main: "projectSnapshots (snd (serve e req d)) =
      (if snapshotDue e (pid p) (b + 1) d
       then projectSnapshots d @ [\<lparr>snapshotId = randomUUID e, projectId = pid p,
              snapshotRevision = b + 1, snapshotContent = c, snapshotCreatedAt = dbNow e\<rparr>]
       else projectSnapshots d)"
    using healthy(2-4) by (simp add: serve_def hit(1) maybeSnapshot_eval[OF hit(2)] due snaps)
  have "10 dvd (b + 1) \<Longrightarrow> snapshotDue e (pid p) (b + 1) d"
    by (simp add: snapshotDue_def Let_def)
  then show ?thesis using main by (simp add: Let_def)
qed

theorem snapshot_policy_witness:
  "projectSnapshots (snd (serve demo_env (demo_patch ''hello'' 0) demo_db)) =
     [\<lparr>snapshotId = ''id-2'', projectId = ''id-1'', snapshotRevision = 1,
       snapshotContent = ''hello'', snapshotCreatedAt = 5000\<rparr>]"
proof -
  have h: "revision demo_project = 0" "\<not> rejects demo_env UpdateProject"
      "\<not> rejects demo_env SelectLatestSnapshot" "\<not> rejects demo_env InsertSnapshot"
      "randomUUID demo_env \<notin> set (map snapshotId (projectSnapshots demo_db))"
    by (simp_all add: demo_defs)
  have "snapshotDue demo_env (pid demo_project) (0 + 1) demo_db"
    by (simp add: snapshotDue_def demo_defs)
  then show ?thesis
    using snapshot_policy[OF demo_route(1-5) demo_route(7,8) h, of "''hello''"]
    by (simp add: Let_def) (simp add: demo_defs)
qed

text \<open>
  Claim C9, as the code has it. When the conditional update matched and a statement of the
  snapshot step fails afterwards (the select is rejected, or the snapshot is due and its
  insert is rejected or its identifier is taken), nothing is rolled back: the updated record
  stays in the datastore. The exception is not caught by the PATCH branch, so the caller
  receives 500 and not the updated record.
\<close>

theorem snapshot_failure_is_500:
  assumes route: "httpMethod req = ''PATCH''" "startsWith (pathname req) ''/api/projects/''"
    and ident: "pathId e req = Some (pid p)"
    and shape: "body req ''content'' = JString c" "body req ''baseRevision'' = JNumber (of_int b)"
    and stored: "p \<in> set (projects d)" "distinct (map pid (projects d))"
    and match: "revision p = b"
    and written: "\<not> rejects e UpdateProject"
    and failure: "rejects e SelectLatestSnapshot \<or>
       (snapshotDue e (pid p) (b + 1) d \<and>
        (rejects e InsertSnapshot \<or> randomUUID e \<in> set (map snapshotId (projectSnapshots d))))"
  shows "(let u = p\<lparr>content := c, revision := b + 1, updatedAt := newDate e,
                    name := (case body req ''name'' of JString s \<Rightarrow> trim s | _ \<Rightarrow> name p)\<rparr>
          in serve e req d =
               (text_response 500 ''Internal Server Error'',
                d\<lparr>projects := map (\<lambda>q. if pid q = pid p then u else q) (projects d)\<rparr>))"
proof -
  define u where "u = p\<lparr>content := c, revision := b + 1, updatedAt := newDate e,
                    name := (case body req ''name'' of JString s \<Rightarrow> trim s | _ \<Rightarrow> name p)\<rparr>"
  define d1 where "d1 = d\<lparr>projects := map (\<lambda>q. if pid q = pid p then u else q) (projects d)\<rparr>"
  note hit = patch_hit[OF route ident shape stored match written u_def d1_def]
  have snaps: "projectSnapshots d1 = projectSnapshots d" by (simp add: d1_def)
  have due: "snapshotDue e (pid p) (b + 1) d1 = snapshotDue e (pid p) (b + 1) d"
    by (rule snapshotDue_cong[OF snaps])
  have "serve e req d = (text_response 500 ''Internal Server Error'', d1)"
    using failure by (auto simp: serve_def hit(1) maybeSnapshot_eval[OF hit(2)] due snaps)
  then show ?thesis by (simp add: u_def d1_def Let_def)
qed

theorem snapshot_failure_is_500_witness:
  "serve demo_env_snapshots_down (demo_patch ''hello'' 0) demo_db =
     (text_response 500 ''Internal Server Error'',
      \<lparr>projects = [demo_project\<lparr>content := ''hello'', revision := 1, updatedAt := 5000\<rparr>],
       projectSnapshots = []\<rparr>)"
proof -
  have same: "pathId demo_env_snapshots_down (demo_patch ''hello'' 0) = Some (pid demo_project)"
    by (simp add: demo_defs pathId_def)
  have h: "revision demo_project = 0" "\<not> rejects demo_env_snapshots_down UpdateProject"
    by (simp_all add: demo_defs)
  have f: "rejects demo_env_snapshots_down SelectLatestSnapshot \<or>
       (snapshotDue demo_env_snapshots_down (pid demo_project) (0 + 1) demo_db \<and>
        (rejects demo_env_snapshots_down InsertSnapshot \<or>
         randomUUID demo_env_snapshots_down \<in> set (map snapshotId (projectSnapshots demo_db))))"
    by (simp add: snapshotDue_def demo_defs)
  show ?thesis
    using snapshot_failure_is_500[OF demo_route(1,2) same demo_route(4,5,7,8) h f]
    by (simp add: Let_def) (simp add: demo_defs)
qed

text \<open>
  The claim as stated promises status 200 in that situation; with the snapshot insert
  rejected the answer to the sample write is 500, while the write itself is stored.
\<close>

theorem snapshot_failure_counterexample:
  "status (fst (serve demo_env_snapshots_down (demo_patch ''hello'' 0) demo_db)) = 500 \<and>
   status (fst (serve demo_env_snapshots_down (demo_patch ''hello'' 0) demo_db)) \<noteq> 200 \<and>
   projects (snd (serve demo_env_snapshots_down (demo_patch ''hello'' 0) demo_db)) =
     [demo_project\<lparr>content := ''hello'', revision := 1, updatedAt := 5000\<rparr>]"
  by (simp add: serve_def handleApi_def patchProject_def updateWhere_def setValues_def
        maybeSnapshot_def selectLatestSnapshot_def insertSnapshot_def js_rem_def
        SNAPSHOT_INTERVAL_MS_def SNAPSHOT_EVERY_N_REVISIONS_def isInteger_def
        startsWith_def pathId_def demo_defs text_response_def Let_def)

section \<open>Creation and the frame of an update\<close>

text \<open>
  Claim C8, as the code has it. A creation request whose insert is not rejected stores and
  returns, with status 201, a record with the generated identifier, revision 0, the language
  \<open>typescript\<close>, the starter content \<open>// Start typing in Codenote\<close> followed by a line feed,
  and as name the trimmed name of the body when that is a string with something besides
  white space, \<open>Untitled Project\<close> otherwise. The identifier is new: if a stored document
  already has it, the insert fails, nothing is stored and the caller receives 500.
\<close>

theorem create_defaults:
  assumes route: "httpMethod req = ''POST''" "pathname req = ''/api/projects''"
    and healthy: "\<not> rejects e InsertProject"
  shows "(let np = \<lparr>pid = randomUUID e,
                    name = (case body req ''name'' of
                              JString s \<Rightarrow> if trim s = [] then ''Untitled Project'' else trim s
                            | _ \<Rightarrow> ''Untitled Project''),
                    language = ''typescript'',
                    content = ''// Start typing in Codenote'' @ [CHR 0x0A],
                    revision = 0, createdAt = dbNow e, updatedAt = dbNow e\<rparr>
          in if randomUUID e \<in> set (map pid (projects d))
             then serve e req d = (text_response 500 ''Internal Server Error'', d)
             else serve e req d = (json 201 (JsonProject np), d\<lparr>projects := projects d @ [np]\<rparr>))"
proof -
  have h: "handleApi e req d = createProject e req d"
    using route by (simp add: handleApi_def startsWith_def)
  show ?thesis
    using healthy
    by (cases "body req ''name''")
       (simp_all add: serve_def h createProject_def Let_def DEFAULT_LANGUAGE_def DEFAULT_CONTENT_def)
qed

theorem create_defaults_witness:
  "serve demo_env demo_post demo_db =
     (json 201 (JsonProject \<lparr>pid = ''id-2'', name = ''Untitled Project'', language = ''typescript'',
        content = ''// Start typing in Codenote'' @ [CHR 0x0A], revision = 0,
        createdAt = 5000, updatedAt = 5000\<rparr>),
      \<lparr>projects = [demo_project,
         \<lparr>pid = ''id-2'', name = ''Untitled Project'', language = ''typescript'',
          content = ''// Start typing in Codenote'' @ [CHR 0x0A], revision = 0,
          createdAt = 5000, updatedAt = 5000\<rparr>],
       projectSnapshots = []\<rparr>)"
proof -
  have h: "httpMethod demo_post = ''POST''" "pathname demo_post = ''/api/projects''"
      "\<not> rejects demo_env InsertProject"
    by (simp_all add: demo_defs)
  show ?thesis
    using create_defaults[OF h, of demo_db]
    by (simp add: Let_def) (simp add: demo_defs)
qed

text \<open>
  The claim as stated promises an empty content and an empty name; the record created for a
  request without a body has neither.
\<close>

theorem create_not_empty_counterexample:
  "fst (serve demo_env demo_post demo_db) =
     json 201 (JsonProject \<lparr>pid = ''id-2'', name = ''Untitled Project'', language = ''typescript'',
        content = ''// Start typing in Codenote'' @ [CHR 0x0A], revision = 0,
        createdAt = 5000, updatedAt = 5000\<rparr>) \<and>
   ''// Start typing in Codenote'' @ [CHR 0x0A] \<noteq> '''' \<and> ''Untitled Project'' \<noteq> ''''"
  by (simp add: serve_def handleApi_def createProject_def startsWith_def trim_def
      DEFAULT_LANGUAGE_def DEFAULT_CONTENT_def demo_defs Let_def)



section \<open>Properties of the save scheduler\<close>

lemmas client_defs = clearTimers_def scheduleDraftWrite_def scheduleServerSave_def flush_def
  flush_finally_def flush_resume_def bufferEffect_def afterRender_def handleRestore_def
  handleDiscardDraft_def handleReloadFromServer_def handleOverwriteServer_def openProject_def
  offerDraft_def

lemmas client_demo_defs = demo_renamed_view_def demo_project_r4_def demo_stored_draft_def
  demo_draft_def demo_offer_view_def demo_server_copy_def demo_conflict_view_def demo_project_def






























text \<open>
  Claim C5, as the code has it. \<^verbatim>\<open>flush\<close> compares content and name: when the in-memory
  content and name both equal the last saved content and name, it returns without a request
  and leaves the view as it is. When there is no conflict and no flush in flight and the
  content or the name differs, it issues one PATCH with the in-memory content and name under
  the current base revision.
\<close>

theorem flush_skips_saved_buffer:
  "(latestValueRef v = lastSavedRef v \<and> latestNameRef v = lastSavedNameRef v \<longrightarrow>
      flush v = (v, [])) \<and>
   (conflictRef v = None \<and> \<not> savingRef v \<and>
    (latestValueRef v \<noteq> lastSavedRef v \<or> latestNameRef v \<noteq> lastSavedNameRef v) \<longrightarrow>
      snd (flush v) =
        [Fetch \<lparr>callProjectId = projectIdRef v, callContent = latestValueRef v,
                callBaseRevision = baseRevisionRef v, callName = latestNameRef v\<rparr>])"
  by (simp add: flush_def Let_def)

theorem flush_skips_saved_buffer_witness:
  "flush (openProject demo_project) = (openProject demo_project, []) \<and>
   snd (flush demo_renamed_view) =
     [Fetch \<lparr>callProjectId = ''id-1'', callContent = ''let x = 1'',
             callBaseRevision = 0, callName = ''Renamed''\<rparr>]"
  using flush_skips_saved_buffer[of "openProject demo_project"]
    flush_skips_saved_buffer[of demo_renamed_view]
  by (simp add: client_defs client_demo_defs Let_def)

text \<open>
  The claim as stated looks at the content only; after a rename the content equals the last
  saved content and the flush still sends a request.
\<close>

theorem flush_same_content_counterexample:
  "latestValueRef demo_renamed_view = lastSavedRef demo_renamed_view \<and>
   snd (flush demo_renamed_view) =
     [Fetch \<lparr>callProjectId = ''id-1'', callContent = ''let x = 1'',
             callBaseRevision = 0, callName = ''Renamed''\<rparr>]"
  by (simp add: client_defs client_demo_defs Let_def)

text \<open>
  Claim C7, as the code has it. Restoring an offered draft puts the draft's content and name
  into the editor state and the latest-value refs and closes the offer; the last saved
  content, the last saved name and the base revision are not touched. At the start of a
  session on document \<open>p\<close> they are therefore still those of \<open>p\<close>, the restored text counts
  as unsaved, and the render that follows schedules a draft write and a server save; the
  flush then sends the draft's content and name under the revision of \<open>p\<close>.
\<close>

theorem restore_adopts_buffer:
  assumes offered: "restoreDraft v = Some d"
  shows "handleRestore v =
           v\<lparr>valueState := draftContent d, latestValueRef := draftContent d,
             nameState := draftName d, latestNameRef := draftName d, restoreDraft := None\<rparr> \<and>
         lastSavedRef (handleRestore v) = lastSavedRef v \<and>
         lastSavedNameRef (handleRestore v) = lastSavedNameRef v \<and>
         baseRevisionRef (handleRestore v) = baseRevisionRef v \<and>
         (\<forall>p now. v = (openProject p)\<lparr>restoreDraft := Some d\<rparr> \<and>
              (draftContent d \<noteq> content p \<or> draftName d \<noteq> name p) \<longrightarrow>
            (let w = afterRender now v (handleRestore v)
             in valueState w = draftContent d \<and> nameState w = draftName d \<and>
                latestValueRef w = draftContent d \<and> latestNameRef w = draftName d \<and>
                lastSavedRef w = content p \<and> lastSavedNameRef w = name p \<and>
                baseRevisionRef w = revision p \<and>
                draftTimerRef w =
                  Pending \<lparr>draftProjectId = pid p, draftContent = draftContent d,
                           draftName = draftName d, draftUpdatedAt = now,
                           draftBaseRevision = revision p\<rparr> \<and>
                debounceRef w = Pending ''debounce'' \<and> maxFlushRef w = Pending ''max'' \<and>
                snd (flush w) =
                  [Fetch \<lparr>callProjectId = pid p, callContent = draftContent d,
                          callBaseRevision = revision p, callName = draftName d\<rparr>]))"
proof -
  have handler: "handleRestore v =
           v\<lparr>valueState := draftContent d, latestValueRef := draftContent d,
             nameState := draftName d, latestNameRef := draftName d, restoreDraft := None\<rparr>"
    using offered by (simp add: handleRestore_def)
  have start: "(let w = afterRender now v (handleRestore v)
             in valueState w = draftContent d \<and> nameState w = draftName d \<and>
                latestValueRef w = draftContent d \<and> latestNameRef w = draftName d \<and>
                lastSavedRef w = content p \<and> lastSavedNameRef w = name p \<and>
                baseRevisionRef w = revision p \<and>
                draftTimerRef w =
                  Pending \<lparr>draftProjectId = pid p, draftContent = draftContent d,
                           draftName = draftName d, draftUpdatedAt = now,
                           draftBaseRevision = revision p\<rparr> \<and>
                debounceRef w = Pending ''debounce'' \<and> maxFlushRef w = Pending ''max'' \<and>
                snd (flush w) =
                  [Fetch \<lparr>callProjectId = pid p, callContent = draftContent d,
                          callBaseRevision = revision p, callName = draftName d\<rparr>])"
    if "v = (openProject p)\<lparr>restoreDraft := Some d\<rparr>"
      and "draftContent d \<noteq> content p \<or> draftName d \<noteq> name p" for p now
    using that by (auto simp: client_defs Let_def)
  show ?thesis
    using handler start by (simp del: split_paired_All) 
qed

theorem restore_adopts_buffer_witness:
  "(let w = afterRender 2500 demo_offer_view (handleRestore demo_offer_view)
    in valueState w = ''let x = 42'' \<and> lastSavedRef w = ''let x = 1'' \<and>
       baseRevisionRef w = 4 \<and>
       snd (flush w) =
         [Fetch \<lparr>callProjectId = ''id-1'', callContent = ''let x = 42'',
                 callBaseRevision = 4, callName = ''Draft notes''\<rparr>])"
proof -
  have o: "restoreDraft demo_offer_view = Some demo_draft"
    by (simp add: client_defs client_demo_defs Let_def)
  have s: "demo_offer_view = (openProject demo_project_r4)\<lparr>restoreDraft := Some demo_draft\<rparr> \<and>
      (draftContent demo_draft \<noteq> content demo_project_r4 \<or>
       draftName demo_draft \<noteq> name demo_project_r4)"
    by (simp add: client_defs client_demo_defs Let_def)
  from restore_adopts_buffer[OF o] s
  have "(let w = afterRender 2500 demo_offer_view (handleRestore demo_offer_view)
     in valueState w = draftContent demo_draft \<and> nameState w = draftName demo_draft \<and>
        latestValueRef w = draftContent demo_draft \<and> latestNameRef w = draftName demo_draft \<and>
        lastSavedRef w = content demo_project_r4 \<and> lastSavedNameRef w = name demo_project_r4 \<and>
        baseRevisionRef w = revision demo_project_r4 \<and>
        draftTimerRef w =
          Pending \<lparr>draftProjectId = pid demo_project_r4, draftContent = draftContent demo_draft,
                   draftName = draftName demo_draft, draftUpdatedAt = 2500,
                   draftBaseRevision = revision demo_project_r4\<rparr> \<and>
        debounceRef w = Pending ''debounce'' \<and> maxFlushRef w = Pending ''max'' \<and>
        snd (flush w) =
          [Fetch \<lparr>callProjectId = pid demo_project_r4, callContent = draftContent demo_draft,
                  callBaseRevision = revision demo_project_r4, callName = draftName demo_draft\<rparr>])"
    by blast
  then show ?thesis
    by (simp add: Let_def demo_draft_def demo_project_r4_def demo_project_def)
qed

text \<open>
  The claim as stated has the baselines adopt the draft's values; for the offered sample draft
  none of the three does.
\<close>

theorem restore_keeps_baselines_counterexample:
  "restoreDraft demo_offer_view = Some demo_draft \<and>
   lastSavedRef (handleRestore demo_offer_view) \<noteq> draftContent demo_draft \<and>
   lastSavedNameRef (handleRestore demo_offer_view) \<noteq> draftName demo_draft \<and>
   baseRevisionRef (handleRestore demo_offer_view) \<noteq> draftBaseRevision demo_draft"
  by (simp add: client_defs client_demo_defs Let_def)

text \<open>
  Claim C3. In a view whose conflict dialog holds the server's record \<open>srv\<close>: Overwrite is
  \<^verbatim>\<open>flush\<close> run on the view with the conflict cleared and the base revision set to the
  revision of \<open>srv\<close>; editor state and latest refs stay as they are, and unless the buffer
  equals the saved baseline the flush sends the local content and name under the revision
  of \<open>srv\<close>. Reload sets editor state, latest refs and saved baselines to the content and
  name of \<open>srv\<close>, the base revision to its revision, clears the conflict, sets the state to
  idle and asks the draft store to delete the draft; the render that follows schedules
  nothing, and a flush from there sends nothing.
\<close>

theorem conflict_resolutions:
  assumes held: "conflictProject v = Some srv"
  shows "handleOverwriteServer v =
           flush (v\<lparr>conflictRef := None, baseRevisionRef := revision srv,
                    conflictProject := None, saveState := Idle\<rparr>) \<and>
         (let w = fst (handleOverwriteServer v)
          in valueState w = valueState v \<and> nameState w = nameState v \<and>
             latestValueRef w = latestValueRef v \<and> latestNameRef w = latestNameRef v \<and>
             baseRevisionRef w = revision srv \<and>
             conflictRef w = None \<and> conflictProject w = None) \<and>
         (\<not> savingRef v \<and>
          (latestValueRef v \<noteq> lastSavedRef v \<or> latestNameRef v \<noteq> lastSavedNameRef v) \<longrightarrow>
            snd (handleOverwriteServer v) =
              [Fetch \<lparr>callProjectId = projectIdRef v, callContent = latestValueRef v,
                      callBaseRevision = revision srv, callName = latestNameRef v\<rparr>] \<and>
            savingRef (fst (handleOverwriteServer v)) \<and>
            saveState (fst (handleOverwriteServer v)) = Saving) \<and>
         handleReloadFromServer v =
           (v\<lparr>conflictRef := None, baseRevisionRef := revision srv,
              lastSavedRef := content srv, lastSavedNameRef := name srv,
              latestValueRef := content srv, latestNameRef := name srv,
              valueState := content srv, nameState := name srv,
              conflictProject := None, saveState := Idle\<rparr>,
            [ClearDraft (projectIdRef v)]) \<and>
         (\<forall>now. let w = afterRender now v (fst (handleReloadFromServer v))
                in w = fst (handleReloadFromServer v) \<and>
                   valueState w = content srv \<and> nameState w = name srv \<and>
                   latestValueRef w = content srv \<and> latestNameRef w = name srv \<and>
                   lastSavedRef w = content srv \<and> lastSavedNameRef w = name srv \<and>
                   baseRevisionRef w = revision srv \<and>
                   conflictRef w = None \<and> conflictProject w = None \<and> saveState w = Idle \<and>
                   snd (flush w) = [])"
proof -
  have over: "handleOverwriteServer v =
           flush (v\<lparr>conflictRef := None, baseRevisionRef := revision srv,
                    conflictProject := None, saveState := Idle\<rparr>)"
    using held by (simp add: handleOverwriteServer_def)
  have kept: "(let w = fst (handleOverwriteServer v)
          in valueState w = valueState v \<and> nameState w = nameState v \<and>
             latestValueRef w = latestValueRef v \<and> latestNameRef w = latestNameRef v \<and>
             baseRevisionRef w = revision srv \<and>
             conflictRef w = None \<and> conflictProject w = None)"
    unfolding over by (simp add: flush_def clearTimers_def Let_def)
  have sent: "\<not> savingRef v \<and>
          (latestValueRef v \<noteq> lastSavedRef v \<or> latestNameRef v \<noteq> lastSavedNameRef v) \<longrightarrow>
            snd (handleOverwriteServer v) =
              [Fetch \<lparr>callProjectId = projectIdRef v, callContent = latestValueRef v,
                      callBaseRevision = revision srv, callName = latestNameRef v\<rparr>] \<and>
            savingRef (fst (handleOverwriteServer v)) \<and>
            saveState (fst (handleOverwriteServer v)) = Saving"
    unfolding over by (simp add: flush_def clearTimers_def Let_def)
  have reload: "handleReloadFromServer v =
           (v\<lparr>conflictRef := None, baseRevisionRef := revision srv,
              lastSavedRef := content srv, lastSavedNameRef := name srv,
              latestValueRef := content srv, latestNameRef := name srv,
              valueState := content srv, nameState := name srv,
              conflictProject := None, saveState := Idle\<rparr>,
            [ClearDraft (projectIdRef v)])"
    using held by (simp add: handleReloadFromServer_def)
  have idle: "\<forall>now. let w = afterRender now v (fst (handleReloadFromServer v))
                in w = fst (handleReloadFromServer v) \<and>
                   valueState w = content srv \<and> nameState w = name srv \<and>
                   latestValueRef w = content srv \<and> latestNameRef w = name srv \<and>
                   lastSavedRef w = content srv \<and> lastSavedNameRef w = name srv \<and>
                   baseRevisionRef w = revision srv \<and>
                   conflictRef w = None \<and> conflictProject w = None \<and> saveState w = Idle \<and>
                   snd (flush w) = []"
    unfolding reload by (simp add: afterRender_def bufferEffect_def flush_def Let_def)
  show ?thesis
    using over kept sent reload idle by blast
qed

theorem conflict_resolutions_witness:
  "conflictProject demo_conflict_view = Some demo_server_copy \<and>
   snd (handleOverwriteServer demo_conflict_view) =
     [Fetch \<lparr>callProjectId = ''id-1'', callContent = ''let x = 5'',
             callBaseRevision = 3, callName = ''Notes''\<rparr>] \<and>
   snd (handleReloadFromServer demo_conflict_view) = [ClearDraft ''id-1''] \<and>
   valueState (fst (handleReloadFromServer demo_conflict_view)) = ''let y = 2'' \<and>
   baseRevisionRef (fst (handleReloadFromServer demo_conflict_view)) = 3"
proof -
  have h: "conflictProject demo_conflict_view = Some demo_server_copy"
    by (simp add: client_defs client_demo_defs Let_def)
  have facts: "\<not> savingRef demo_conflict_view"
    "latestValueRef demo_conflict_view = ''let x = 5''"
    "lastSavedRef demo_conflict_view = ''let x = 1''"
    "latestNameRef demo_conflict_view = ''Notes''"
    "projectIdRef demo_conflict_view = ''id-1''"
    by (simp_all add: client_defs client_demo_defs Let_def)
  note w = conflict_resolutions[OF h]
  from w have "\<not> savingRef demo_conflict_view \<and>
          (latestValueRef demo_conflict_view \<noteq> lastSavedRef demo_conflict_view \<or>
           latestNameRef demo_conflict_view \<noteq> lastSavedNameRef demo_conflict_view) \<longrightarrow>
            snd (handleOverwriteServer demo_conflict_view) =
              [Fetch \<lparr>callProjectId = projectIdRef demo_conflict_view,
                      callContent = latestValueRef demo_conflict_view,
                      callBaseRevision = revision demo_server_copy,
                      callName = latestNameRef demo_conflict_view\<rparr>] \<and>
            savingRef (fst (handleOverwriteServer demo_conflict_view)) \<and>
            saveState (fst (handleOverwriteServer demo_conflict_view)) = Saving"
    by blast
  then have a: "snd (handleOverwriteServer demo_conflict_view) =
     [Fetch \<lparr>callProjectId = ''id-1'', callContent = ''let x = 5'',
             callBaseRevision = 3, callName = ''Notes''\<rparr>]"
    using facts by (simp add: demo_server_copy_def)
  have b: "handleReloadFromServer demo_conflict_view =
           (demo_conflict_view\<lparr>conflictRef := None, baseRevisionRef := revision demo_server_copy,
              lastSavedRef := content demo_server_copy, lastSavedNameRef := name demo_server_copy,
              latestValueRef := content demo_server_copy, latestNameRef := name demo_server_copy,
              valueState := content demo_server_copy, nameState := name demo_server_copy,
              conflictProject := None, saveState := Idle\<rparr>,
            [ClearDraft (projectIdRef demo_conflict_view)])"
    using w by blast
  show ?thesis
    using h a by (simp add: b facts) (simp add: demo_server_copy_def)
qed



end
